theory Spec2Isabelle
  imports Complex_Main "HOL-Library.AList"
begin

section \<open>Python primitives used by the three greedy algorithms\<close>

text \<open>
  The three modules \<^verbatim>\<open>problema_cambio.py\<close>, \<^verbatim>\<open>problema_mochila_fraccionaria.py\<close> and
  \<^verbatim>\<open>problema_seleccion_actividades.py\<close> are embedded as HOL functions. Exceptions are
  values of the type \<open>error\<close>; a function that can raise returns \<open>error + 'a\<close>.
  Python's \<^verbatim>\<open>int\<close> is \<open>int\<close>. The weights, values and capacities of the knapsack are
  Python numbers, \<^verbatim>\<open>int\<close> or \<^verbatim>\<open>float\<close>: the type \<open>numero\<close> below, whose arithmetic rounds
  as IEEE 754 binary64 does and raises what Python raises.
\<close>

datatype error = ValueError | ZeroDivisionError | OverflowError

text \<open>\<^verbatim>\<open>a // b\<close> and \<^verbatim>\<open>a % b\<close> on integers: floor division, the remainder has the sign of
  the divisor (as \<open>div\<close> and \<open>mod\<close> on \<open>int\<close>), and a zero divisor raises.\<close>

definition py_floordiv :: "int \<Rightarrow> int \<Rightarrow> error + int" where
  "py_floordiv a b = (if b = 0 then Inl ZeroDivisionError else Inr (a div b))"

definition py_mod :: "int \<Rightarrow> int \<Rightarrow> error + int" where
  "py_mod a b = (if b = 0 then Inl ZeroDivisionError else Inr (a mod b))"

text \<open>\<^verbatim>\<open>sorted(xs, key=key)\<close> is a stable sort by ascending key: \<open>sort_key\<close> is the stable
  insertion sort. \<^verbatim>\<open>sorted(xs, key=key, reverse=True)\<close> reverses the list, sorts it stably
  and reverses the result, so that elements with equal keys keep their original order.\<close>

definition py_sorted :: "('a \<Rightarrow> 'k::linorder) \<Rightarrow> 'a list \<Rightarrow> 'a list" where
  "py_sorted key xs = sort_key key xs"

definition py_sorted_reverse :: "('a \<Rightarrow> 'k::linorder) \<Rightarrow> 'a list \<Rightarrow> 'a list" where
  "py_sorted_reverse key xs = rev (sort_key key (rev xs))"

section \<open>Python numbers\<close>

text \<open>
  A \<^verbatim>\<open>float\<close> is an IEEE 754 binary64 value: a finite number, an infinity or NaN. A finite
  value is represented by the real number it denotes; the sign of a zero is not represented
  (\<^verbatim>\<open>0.0 == -0.0\<close>, and the three modules never tell them apart). A number is an \<^verbatim>\<open>int\<close> or
  a \<^verbatim>\<open>float\<close>.
\<close>

datatype flotante = Finito real | MasInf | MenosInf | NaN

datatype numero = Entero int | Flotante flotante

text \<open>Rounding to nearest, ties to even. \<open>redondeo_par\<close> rounds a real to an integer;
  \<open>exponente x\<close> is the exponent of the unit in the last place of the binade of \<open>x\<close>
  (53 significant bits, the subnormal range starts below \<open>2\<^sup>-\<^sup>1\<^sup>0\<^sup>2\<^sup>2\<close>); \<open>redondear x\<close> is the
  binary64 value nearest to \<open>x\<close>, an infinity when that value would reach \<open>2\<^sup>1\<^sup>0\<^sup>2\<^sup>4\<close>.\<close>

definition redondeo_par :: "real \<Rightarrow> int" where
  "redondeo_par y =
     (let n = \<lfloor>y\<rfloor>; r = y - of_int n
      in if r < 1 / 2 then n else if 1 / 2 < r then n + 1 else if even n then n else n + 1)"

definition exponente :: "real \<Rightarrow> int" where
  "exponente x = max (\<lfloor>log 2 \<bar>x\<bar>\<rfloor> - 52) (- 1074)"

definition redondear :: "real \<Rightarrow> flotante" where
  "redondear x =
     (if x = 0 then Finito 0
      else
        let e = exponente x;
            y = of_int (redondeo_par (x / 2 powr of_int e)) * 2 powr of_int e
        in if 2 ^ 1024 \<le> \<bar>y\<bar> then (if 0 < x then MasInf else MenosInf) else Finito y)"

text \<open>The real numbers whose nearest binary64 value is not finite. Converting such an
  \<^verbatim>\<open>int\<close> to \<^verbatim>\<open>float\<close>, or dividing two \<^verbatim>\<open>int\<close>s with such a quotient, raises
  \<^verbatim>\<open>OverflowError\<close>.\<close>

definition desborda :: "real \<Rightarrow> bool" where
  "desborda x \<longleftrightarrow> 2 ^ 1024 - 2 ^ 970 \<le> \<bar>x\<bar>"

text \<open>The operations of \<^verbatim>\<open>float\<close>. Sums, differences and products never raise; a
  division raises \<^verbatim>\<open>ZeroDivisionError\<close> when the divisor is zero, whatever the dividend.\<close>

fun f_neg :: "flotante \<Rightarrow> flotante" where
  "f_neg (Finito x) = Finito (- x)"
| "f_neg MasInf = MenosInf"
| "f_neg MenosInf = MasInf"
| "f_neg NaN = NaN"

fun f_suma :: "flotante \<Rightarrow> flotante \<Rightarrow> flotante" where
  "f_suma NaN b = NaN"
| "f_suma a NaN = NaN"
| "f_suma (Finito x) (Finito y) = redondear (x + y)"
| "f_suma (Finito x) b = b"
| "f_suma a (Finito y) = a"
| "f_suma MasInf MasInf = MasInf"
| "f_suma MenosInf MenosInf = MenosInf"
| "f_suma MasInf MenosInf = NaN"
| "f_suma MenosInf MasInf = NaN"

definition f_resta :: "flotante \<Rightarrow> flotante \<Rightarrow> flotante" where
  "f_resta a b = f_suma a (f_neg b)"

fun signo :: "flotante \<Rightarrow> int" where
  "signo (Finito x) = (if 0 < x then 1 else if x < 0 then - 1 else 0)"
| "signo MasInf = 1"
| "signo MenosInf = - 1"
| "signo NaN = 0"

definition inf_de_signo :: "int \<Rightarrow> flotante" where
  "inf_de_signo s = (if 0 < s then MasInf else MenosInf)"

fun f_mult :: "flotante \<Rightarrow> flotante \<Rightarrow> flotante" where
  "f_mult NaN b = NaN"
| "f_mult a NaN = NaN"
| "f_mult (Finito x) (Finito y) = redondear (x * y)"
| "f_mult a b = (if signo a * signo b = 0 then NaN else inf_de_signo (signo a * signo b))"

fun f_div :: "flotante \<Rightarrow> flotante \<Rightarrow> error + flotante" where
  "f_div a (Finito y) =
     (if y = 0 then Inl ZeroDivisionError
      else case a of
        Finito x \<Rightarrow> Inr (redondear (x / y))
      | NaN \<Rightarrow> Inr NaN
      | _ \<Rightarrow> Inr (inf_de_signo (signo a * signo (Finito y))))"
| "f_div a NaN = Inr NaN"
| "f_div NaN b = Inr NaN"
| "f_div (Finito x) b = Inr (Finito 0)"
| "f_div a b = Inr NaN"

text \<open>Comparisons: every comparison with NaN is false.\<close>

fun f_lt :: "flotante \<Rightarrow> flotante \<Rightarrow> bool" where
  "f_lt NaN b = False"
| "f_lt a NaN = False"
| "f_lt (Finito x) (Finito y) = (x < y)"
| "f_lt MenosInf b = (b \<noteq> MenosInf)"
| "f_lt a MasInf = (a \<noteq> MasInf)"
| "f_lt a b = False"

definition f_le :: "flotante \<Rightarrow> flotante \<Rightarrow> bool" where
  "f_le a b \<longleftrightarrow> a \<noteq> NaN \<and> b \<noteq> NaN \<and> (f_lt a b \<or> a = b)"

text \<open>Python compares an \<^verbatim>\<open>int\<close> with a \<^verbatim>\<open>float\<close> by their exact values, without
  converting and without raising: \<^verbatim>\<open>a < b\<close>, \<^verbatim>\<open>a <= b\<close>, \<^verbatim>\<open>a > b\<close>.\<close>

fun exacto :: "numero \<Rightarrow> flotante" where
  "exacto (Entero i) = Finito (of_int i)"
| "exacto (Flotante f) = f"

definition py_lt :: "numero \<Rightarrow> numero \<Rightarrow> bool" where
  "py_lt a b = f_lt (exacto a) (exacto b)"

definition py_le :: "numero \<Rightarrow> numero \<Rightarrow> bool" where
  "py_le a b = f_le (exacto a) (exacto b)"

definition py_gt :: "numero \<Rightarrow> numero \<Rightarrow> bool" where
  "py_gt a b = py_lt b a"

text \<open>Arithmetic: two \<^verbatim>\<open>int\<close>s are added, subtracted and multiplied exactly. When one
  operand is a \<^verbatim>\<open>float\<close> the other is converted to \<^verbatim>\<open>float\<close> first, the left one before
  the right one, and the conversion of an \<^verbatim>\<open>int\<close> beyond the range raises
  \<^verbatim>\<open>OverflowError\<close>. \<^verbatim>\<open>a / b\<close> on two \<^verbatim>\<open>int\<close>s is the correctly rounded quotient; it raises
  \<^verbatim>\<open>ZeroDivisionError\<close> for the divisor 0 and \<^verbatim>\<open>OverflowError\<close> when the quotient is
  beyond the range.\<close>

fun a_flotante :: "numero \<Rightarrow> error + flotante" where
  "a_flotante (Entero i) =
     (if desborda (of_int i) then Inl OverflowError else Inr (redondear (of_int i)))"
| "a_flotante (Flotante f) = Inr f"

definition con_flotantes ::
  "(flotante \<Rightarrow> flotante \<Rightarrow> error + flotante) \<Rightarrow> numero \<Rightarrow> numero \<Rightarrow> error + numero" where
  "con_flotantes op a b =
     (case a_flotante a of
        Inl e \<Rightarrow> Inl e
      | Inr x \<Rightarrow>
          (case a_flotante b of
             Inl e \<Rightarrow> Inl e
           | Inr y \<Rightarrow> (case op x y of Inl e \<Rightarrow> Inl e | Inr z \<Rightarrow> Inr (Flotante z))))"

fun py_add :: "numero \<Rightarrow> numero \<Rightarrow> error + numero" where
  "py_add (Entero x) (Entero y) = Inr (Entero (x + y))"
| "py_add a b = con_flotantes (\<lambda>x y. Inr (f_suma x y)) a b"

fun py_sub :: "numero \<Rightarrow> numero \<Rightarrow> error + numero" where
  "py_sub (Entero x) (Entero y) = Inr (Entero (x - y))"
| "py_sub a b = con_flotantes (\<lambda>x y. Inr (f_resta x y)) a b"

fun py_mul :: "numero \<Rightarrow> numero \<Rightarrow> error + numero" where
  "py_mul (Entero x) (Entero y) = Inr (Entero (x * y))"
| "py_mul a b = con_flotantes (\<lambda>x y. Inr (f_mult x y)) a b"

fun py_truediv :: "numero \<Rightarrow> numero \<Rightarrow> error + numero" where
  "py_truediv (Entero x) (Entero y) =
     (if y = 0 then Inl ZeroDivisionError
      else if desborda (of_int x / of_int y) then Inl OverflowError
      else Inr (Flotante (redondear (of_int x / of_int y))))"
| "py_truediv a b = con_flotantes f_div a b"

text \<open>\<^verbatim>\<open>sorted(xs, key=key, reverse=True)\<close> on keys that are numbers. Without a NaN among
  the keys the comparisons order them, and the result is the stable descending sort:
  insertion from the right puts an element before the first one whose key is not larger.
  With a NaN among the keys the comparisons are not an order and the result depends on
  how the sort is implemented: it is then what the parameter \<open>orden_con_nan\<close> returns.\<close>

fun insertar_desc :: "('a \<Rightarrow> numero) \<Rightarrow> 'a \<Rightarrow> 'a list \<Rightarrow> 'a list" where
  "insertar_desc key x [] = [x]"
| "insertar_desc key x (y # ys) =
     (if py_lt (key x) (key y) then y # insertar_desc key x ys else x # y # ys)"

definition py_sorted_reverse_num ::
  "('a list \<Rightarrow> 'a list) \<Rightarrow> ('a \<Rightarrow> numero) \<Rightarrow> 'a list \<Rightarrow> 'a list" where
  "py_sorted_reverse_num orden_con_nan key xs =
     (if \<exists>x \<in> set xs. exacto (key x) = NaN then orden_con_nan xs
      else foldr (insertar_desc key) xs [])"

section \<open>problema\_cambio.py\<close>

text \<open>The result dictionary is an association list in insertion order;
  \<^verbatim>\<open>resultado[moneda] = cantidad_monedas\<close> is \<open>AList.update\<close>, which overwrites the value
  of a key already present and appends a new key at the end.\<close>

type_synonym resultado = "(int \<times> int) list"

text \<open>The \<^verbatim>\<open>for moneda in monedas_ordenadas\<close> loop, with the state
  \<open>(resultado, cantidad_restante)\<close>.\<close>

fun cambio_loop :: "int list \<Rightarrow> resultado \<Rightarrow> int \<Rightarrow> error + resultado" where
  "cambio_loop [] resultado cantidad_restante = Inr resultado"
| "cambio_loop (moneda # resto) resultado cantidad_restante =
     (if cantidad_restante \<ge> moneda then
        (case py_floordiv cantidad_restante moneda of
           Inl e \<Rightarrow> Inl e
         | Inr cantidad_monedas \<Rightarrow>
             (case py_mod cantidad_restante moneda of
                Inl e \<Rightarrow> Inl e
              | Inr r \<Rightarrow> cambio_loop resto (AList.update moneda cantidad_monedas resultado) r))
      else cambio_loop resto resultado cantidad_restante)"

definition monedas_default :: "int list" where
  "monedas_default = [25, 10, 5, 1]"

definition dar_cambio_voraz :: "int \<Rightarrow> int list \<Rightarrow> error + resultado" where
  "dar_cambio_voraz cantidad monedas =
     (let monedas_ordenadas = py_sorted_reverse (\<lambda>m. m) monedas
      in cambio_loop monedas_ordenadas [] cantidad)"

text \<open>The sums that \<^verbatim>\<open>mostrar_cambio\<close> computes from a result: the value it
  represents and the number of coins.\<close>

definition suma_verificacion :: "resultado \<Rightarrow> int" where
  "suma_verificacion resultado = sum_list (map (\<lambda>(moneda, cantidad). moneda * cantidad) resultado)"

definition total_monedas :: "resultado \<Rightarrow> int" where
  "total_monedas resultado = sum_list (map snd resultado)"

section \<open>problema\_mochila\_fraccionaria.py\<close>

record Articulo =
  peso :: numero
  valor :: numero
  nombre :: string
  ratio :: numero

text \<open>\<^verbatim>\<open>Articulo.__init__\<close>: the ratio is \<^verbatim>\<open>valor / peso if peso > 0 else 0\<close>.\<close>

definition Articulo_init :: "numero \<Rightarrow> numero \<Rightarrow> string \<Rightarrow> error + Articulo" where
  "Articulo_init p v n =
     (if py_gt p (Entero 0) then
        (case py_truediv v p of
           Inl e \<Rightarrow> Inl e
         | Inr r \<Rightarrow> Inr \<lparr>peso = p, valor = v, nombre = n, ratio = r\<rparr>)
      else Inr \<lparr>peso = p, valor = v, nombre = n, ratio = Entero 0\<rparr>)"

type_synonym mochila = "(Articulo \<times> numero) list"

text \<open>The \<^verbatim>\<open>for articulo in articulos_ordenados\<close> loop, with the state
  \<open>(mochila, capacidad_restante, valor_total)\<close>; \<^verbatim>\<open>break\<close> returns the state, and an
  exception of \<^verbatim>\<open>+=\<close>, \<^verbatim>\<open>-=\<close>, \<^verbatim>\<open>*\<close> or \<^verbatim>\<open>/\<close> ends the function.\<close>

fun mochila_loop ::
  "Articulo list \<Rightarrow> mochila \<Rightarrow> numero \<Rightarrow> numero \<Rightarrow> error + (mochila \<times> numero \<times> numero)" where
  "mochila_loop [] mochila capacidad_restante valor_total =
     Inr (mochila, capacidad_restante, valor_total)"
| "mochila_loop (articulo # resto) mochila capacidad_restante valor_total =
     (if py_le capacidad_restante (Entero 0) then Inr (mochila, capacidad_restante, valor_total)
      else if py_le (peso articulo) capacidad_restante then
        (case py_add valor_total (valor articulo) of
           Inl e \<Rightarrow> Inl e
         | Inr valor_total' \<Rightarrow>
             (case py_sub capacidad_restante (peso articulo) of
                Inl e \<Rightarrow> Inl e
              | Inr capacidad_restante' \<Rightarrow>
                  mochila_loop resto (mochila @ [(articulo, Flotante (Finito 1))])
                    capacidad_restante' valor_total'))
      else
        (case py_truediv capacidad_restante (peso articulo) of
           Inl e \<Rightarrow> Inl e
         | Inr fraccion \<Rightarrow>
             (case py_mul (valor articulo) fraccion of
                Inl e \<Rightarrow> Inl e
              | Inr valor_fraccion \<Rightarrow>
                  (case py_add valor_total valor_fraccion of
                     Inl e \<Rightarrow> Inl e
                   | Inr valor_total' \<Rightarrow>
                       mochila_loop resto (mochila @ [(articulo, fraccion)])
                         (Entero 0) valor_total'))))"

text \<open>\<^verbatim>\<open>valor_total\<close> starts as the \<^verbatim>\<open>float\<close> \<^verbatim>\<open>0.0\<close>.\<close>

definition mochila_fraccionaria_voraz ::
  "(Articulo list \<Rightarrow> Articulo list) \<Rightarrow> Articulo list \<Rightarrow> numero \<Rightarrow> error + (mochila \<times> numero)" where
  "mochila_fraccionaria_voraz orden_con_nan articulos capacidad =
     (let articulos_ordenados = py_sorted_reverse_num orden_con_nan ratio articulos
      in case mochila_loop articulos_ordenados [] capacidad (Flotante (Finito 0)) of
           Inl e \<Rightarrow> Inl e
         | Inr (mochila, capacidad_restante, valor_total) \<Rightarrow> Inr (mochila, valor_total))"

section \<open>problema\_seleccion\_actividades.py\<close>

record Actividad =
  inicio :: int
  fin :: int
  nombre :: string
  duracion :: int

text \<open>\<^verbatim>\<open>Actividad.__init__\<close> raises \<^verbatim>\<open>ValueError\<close> when \<^verbatim>\<open>inicio >= fin\<close>.\<close>

definition Actividad_init :: "int \<Rightarrow> int \<Rightarrow> string \<Rightarrow> error + Actividad" where
  "Actividad_init i f n =
     (if i \<ge> f then Inl ValueError
      else Inr \<lparr>inicio = i, fin = f, nombre = n, duracion = f - i\<rparr>)"

text \<open>An \<open>Actividad\<close> value that the constructor has built.\<close>

definition Actividad_ok :: "Actividad \<Rightarrow> bool" where
  "Actividad_ok a \<longleftrightarrow> Actividad_init (inicio a) (fin a) (Actividad.nombre a) = Inr a"

definition traslapa_con :: "Actividad \<Rightarrow> Actividad \<Rightarrow> bool" where
  "traslapa_con self otra \<longleftrightarrow> \<not> (fin self \<le> inicio otra \<or> fin otra \<le> inicio self)"

text \<open>The \<^verbatim>\<open>for actividad in actividades_ordenadas\<close> loop, with the state
  \<open>(seleccionadas, ultimo_fin)\<close>.\<close>

fun seleccion_loop :: "Actividad list \<Rightarrow> Actividad list \<Rightarrow> int \<Rightarrow> Actividad list" where
  "seleccion_loop [] seleccionadas ultimo_fin = seleccionadas"
| "seleccion_loop (actividad # resto) seleccionadas ultimo_fin =
     (if inicio actividad \<ge> ultimo_fin
      then seleccion_loop resto (seleccionadas @ [actividad]) (fin actividad)
      else seleccion_loop resto seleccionadas ultimo_fin)"

definition seleccion_actividades_voraz :: "Actividad list \<Rightarrow> Actividad list" where
  "seleccion_actividades_voraz actividades =
     (if actividades = [] then []
      else
        let actividades_ordenadas = py_sorted fin actividades
        in seleccion_loop actividades_ordenadas [] (- 1))"

text \<open>\<^verbatim>\<open>verificar_sin_traslape\<close>: no two entries at different positions overlap.\<close>

definition verificar_sin_traslape :: "Actividad list \<Rightarrow> bool" where
  "verificar_sin_traslape actividades \<longleftrightarrow>
     (\<forall>i < length actividades. \<forall>j < length actividades.
        i < j \<longrightarrow> \<not> traslapa_con (actividades ! i) (actividades ! j))"

text \<open>\<^verbatim>\<open>Actividad\<close> is an ordinary class: it declares no \<^verbatim>\<open>__slots__\<close>, no property and no
  \<^verbatim>\<open>__setattr__\<close>, so the assignment \<^verbatim>\<open>self.inicio = inicio\<close> that \<^verbatim>\<open>__init__\<close> executes is
  open to every holder of the object. Objects live in a store under a reference:
  \<open>Actividad_nueva\<close> is the call \<^verbatim>\<open>Actividad(inicio, fin, nombre)\<close> whose result is bound to
  the reference \<open>r\<close>, and \<open>asignar_inicio\<close> is the statement \<^verbatim>\<open>obj.inicio = v\<close> on the object
  that \<open>r\<close> names (a reference that names no object leaves the store as it is).\<close>

type_synonym referencia = nat

type_synonym almacen = "referencia \<Rightarrow> Actividad option"

definition almacen_vacio :: almacen where
  "almacen_vacio = (\<lambda>r. None)"

definition Actividad_nueva ::
  "almacen \<Rightarrow> referencia \<Rightarrow> int \<Rightarrow> int \<Rightarrow> string \<Rightarrow> error + almacen" where
  "Actividad_nueva h r i f n =
     (case Actividad_init i f n of Inl e \<Rightarrow> Inl e | Inr a \<Rightarrow> Inr (h(r \<mapsto> a)))"

definition asignar_inicio :: "almacen \<Rightarrow> referencia \<Rightarrow> int \<Rightarrow> almacen" where
  "asignar_inicio h r v = (case h r of None \<Rightarrow> h | Some a \<Rightarrow> h(r \<mapsto> a\<lparr>inicio := v\<rparr>))"

section \<open>Auxiliary definitions for the statements and the proofs\<close>

text \<open>The record that the constructor of \<open>Actividad\<close> builds, for writing examples.\<close>

definition Actividad_de :: "int \<Rightarrow> int \<Rightarrow> string \<Rightarrow> Actividad" where
  "Actividad_de i f n = \<lparr>inicio = i, fin = f, nombre = n, duracion = f - i\<rparr>"

text \<open>The knapsack example of the specification, as the constructor builds it.\<close>

definition articulos_ejemplo :: "Articulo list" where
  "articulos_ejemplo =
     [\<lparr>peso = Entero 10, valor = Entero 60, nombre = [], ratio = Flotante (Finito 6)\<rparr>,
      \<lparr>peso = Entero 20, valor = Entero 100, nombre = [], ratio = Flotante (Finito 5)\<rparr>,
      \<lparr>peso = Entero 30, valor = Entero 120, nombre = [], ratio = Flotante (Finito 4)\<rparr>]"

text \<open>The activities of \<^verbatim>\<open>probar_seleccion_actividades\<close> (case 1), three activities of which
  two touch at time 4, and an activity that lies before time \<open>-1\<close>.\<close>

definition actividades_ejemplo :: "Actividad list" where
  "actividades_ejemplo =
     [Actividad_de 1 4 ''A'', Actividad_de 3 5 ''B'', Actividad_de 0 6 ''C'',
      Actividad_de 5 7 ''D'', Actividad_de 3 8 ''E'', Actividad_de 5 9 ''F'',
      Actividad_de 6 10 ''G'', Actividad_de 8 11 ''H'', Actividad_de 8 12 ''I'',
      Actividad_de 2 13 ''J'', Actividad_de 12 14 ''K'']"

definition actividades_contiguas :: "Actividad list" where
  "actividades_contiguas = [Actividad_de 1 4 ''A'', Actividad_de 3 5 ''B'', Actividad_de 4 6 ''C'']"

definition actividad_negativa :: Actividad where
  "actividad_negativa = Actividad_de (- 5) (- 3) ''N''"

text \<open>The number of coins the loop hands out over a list of denominations, and its closed
  form for the denominations 25, 10, 5, 1.\<close>

fun cuenta_voraz :: "int list \<Rightarrow> int \<Rightarrow> int" where
  "cuenta_voraz [] r = 0"
| "cuenta_voraz (m # ms) r = r div m + cuenta_voraz ms (r mod m)"

definition cuenta_canonica :: "int \<Rightarrow> int" where
  "cuenta_canonica n = n div 25 + n mod 25 div 10 + n mod 25 mod 10 div 5 + n mod 25 mod 10 mod 5"

text \<open>An exact representation of \<open>n\<close> with the denominations 1, 5, 10, 25: counts are not
  negative and the weighted sum is \<open>n\<close>.\<close>

definition representacion :: "resultado \<Rightarrow> int \<Rightarrow> bool" where
  "representacion rep n \<longleftrightarrow>
     (\<forall>(d, c) \<in> set rep. d \<in> {1, 5, 10, 25} \<and> 0 \<le> c) \<and> suma_verificacion rep = n"

text \<open>A set of activities no two of which overlap.\<close>

definition sin_traslape :: "Actividad set \<Rightarrow> bool" where
  "sin_traslape S \<longleftrightarrow> (\<forall>a \<in> S. \<forall>b \<in> S. a \<noteq> b \<longrightarrow> \<not> traslapa_con a b)"

section \<open>Rounding and the errors of a division\<close>

lemma redondeo_par_of_int: "redondeo_par (of_int k) = k"
  by (simp add: redondeo_par_def)










text \<open>An integer of at most 53 bits is a binary64 value: rounding leaves it as it is.\<close>

lemma dos_powr_nat: "(2::real) powr real n = 2 ^ n"
  by (simp add: powr_realpow)

lemma floor_log2_entre:
  assumes "2 ^ k \<le> x" "x < 2 ^ Suc k"
  shows "\<lfloor>log 2 x\<rfloor> = int k"
proof -
  have "(0::real) < 2 ^ k" by simp
  then have x0: "0 < x" using assms(1) by linarith
  have a: "2 powr real k \<le> x" using assms(1) by (simp only: dos_powr_nat)
  have b: "x < 2 powr real (Suc k)" using assms(2) by (simp only: dos_powr_nat)
  have c: "real_of_int (int k) = real k" "real_of_int (int k + 1) = real (Suc k)" by simp_all
  have "\<lfloor>log 2 x\<rfloor> = int k \<longleftrightarrow> 2 powr real_of_int (int k) \<le> x \<and> x < 2 powr real_of_int (int k + 1)"
    using x0 by (intro floor_log_eq_powr_iff) simp_all
  then show ?thesis using a b by (simp only: c)
qed

lemma dos_powr_neg: "(2::real) powr (- real n) = 1 / 2 ^ n"
proof -
  have "(2::real) powr (- real n) = inverse (2 powr real n)" by (rule powr_minus)
  then show ?thesis by (simp only: dos_powr_nat inverse_eq_divide)
qed

lemma redondear_entero:
  assumes "2 ^ k \<le> \<bar>of_int i :: real\<bar>" "\<bar>of_int i :: real\<bar> < 2 ^ Suc k" "k \<le> 52"
  shows "redondear (of_int i) = Finito (of_int i)"
proof -
  have "(0::real) < 2 ^ k" by simp
  then have "(0::real) < \<bar>of_int i\<bar>" using assms(1) by linarith
  then have i0: "(of_int i :: real) \<noteq> 0" by simp
  have L: "\<lfloor>log 2 \<bar>of_int i :: real\<bar>\<rfloor> = int k" using assms(1,2) by (rule floor_log2_entre)
  have "- 1074 \<le> int k - 52" by simp
  then have e: "exponente (of_int i) = int k - 52" by (simp only: exponente_def L max_def) simp
  have "real_of_int (int k - 52) = - real (52 - k)" using assms(3) by simp
  then have p: "(2::real) powr real_of_int (int k - 52) = 1 / 2 ^ (52 - k)"
    by (simp only: dos_powr_neg)
  have q: "(of_int i :: real) / (1 / 2 ^ (52 - k)) = of_int (i * 2 ^ (52 - k))"
    by simp
  have r: "redondeo_par ((of_int i :: real) / 2 powr real_of_int (int k - 52)) = i * 2 ^ (52 - k)"
    by (simp only: p q redondeo_par_of_int)
  have y: "real_of_int (i * 2 ^ (52 - k)) * 2 powr real_of_int (int k - 52) = of_int i"
    by (simp only: p) simp
  have "(2::real) ^ Suc k \<le> 2 ^ 1024" using assms(3) by (intro power_increasing) simp_all
  then have small: "\<not> (2::real) ^ 1024 \<le> \<bar>of_int i\<bar>" using assms(2) by linarith
  have "redondear (of_int i) =
      (if (2::real) ^ 1024 \<le> \<bar>of_int i\<bar> then (if (0::real) < of_int i then MasInf else MenosInf)
       else Finito (of_int i))"
    unfolding redondear_def Let_def e r y using i0 by (simp only: if_False)
  then show ?thesis using small by (simp only: if_False)
qed

lemma redondear_ejemplo: "redondear 6 = Finito 6" "redondear 5 = Finito 5" "redondear 4 = Finito 4"
proof -
  have "(2::real) ^ 2 \<le> \<bar>of_int 6\<bar>" "\<bar>of_int 6 :: real\<bar> < 2 ^ Suc 2" by simp_all
  then have "redondear (of_int 6) = Finito (of_int 6)" by (rule redondear_entero) simp
  then show "redondear 6 = Finito 6" by simp
  have "(2::real) ^ 2 \<le> \<bar>of_int 5\<bar>" "\<bar>of_int 5 :: real\<bar> < 2 ^ Suc 2" by simp_all
  then have "redondear (of_int 5) = Finito (of_int 5)" by (rule redondear_entero) simp
  then show "redondear 5 = Finito 5" by simp
  have "(2::real) ^ 2 \<le> \<bar>of_int 4\<bar>" "\<bar>of_int 4 :: real\<bar> < 2 ^ Suc 2" by simp_all
  then have "redondear (of_int 4) = Finito (of_int 4)" by (rule redondear_entero) simp
  then show "redondear 4 = Finito 4" by simp
qed

lemma no_desborda_ejemplo: "\<not> desborda 6" "\<not> desborda 5" "\<not> desborda 4"
  by (simp_all add: desborda_def)

text \<open>The three items of the example are the values their constructor builds.\<close>

lemma articulos_ejemplo_construidos:
  "map (\<lambda>(p, v). Articulo_init (Entero p) (Entero v) []) [(10, 60), (20, 100), (30, 120)] =
     map Inr articulos_ejemplo"
  by (simp add: articulos_ejemplo_def Articulo_init_def py_gt_def py_lt_def
      no_desborda_ejemplo redondear_ejemplo)

section \<open>Constructors\<close>

text \<open>
  C7, as the claim states it, fails: the value the constructor produces is not immutable.
  The object that \<^verbatim>\<open>Actividad(1, 4, 'A')\<close> returns accepts the assignment
  \<^verbatim>\<open>obj.inicio = 9\<close>, after which the same reference names an activity with
  \<open>inicio = 9\<close>, \<open>fin = 4\<close> and the stale \<open>duracion = 3\<close>: a state that the constructor
  itself refuses to build.
\<close>

theorem Actividad_mutable_counterexample:
  "Actividad_nueva almacen_vacio 0 1 4 ''A'' =
     Inr (almacen_vacio(0 \<mapsto> \<lparr>inicio = 1, fin = 4, nombre = ''A'', duracion = 3\<rparr>)) \<and>
   asignar_inicio (almacen_vacio(0 \<mapsto> \<lparr>inicio = 1, fin = 4, nombre = ''A'', duracion = 3\<rparr>)) 0 9 0 =
     Some \<lparr>inicio = 9, fin = 4, nombre = ''A'', duracion = 3\<rparr> \<and>
   Actividad_init 9 4 ''A'' = Inl ValueError"
  by (simp add: Actividad_nueva_def Actividad_init_def asignar_inicio_def)

text \<open>
  C7, amended. Constructing an \<open>Actividad\<close> raises exactly when \<open>inicio \<ge> fin\<close>; when
  \<open>inicio < fin\<close> it returns the value with the given start and end and with
  \<open>duracion = fin - inicio\<close>.
\<close>

theorem Actividad_init_fails_iff:
  "(i \<ge> f \<longrightarrow> Actividad_init i f n = Inl ValueError) \<and>
   (i < f \<longrightarrow> Actividad_init i f n = Inr \<lparr>inicio = i, fin = f, nombre = n, duracion = f - i\<rparr>) \<and>
   ((\<exists>e. Actividad_init i f n = Inl e) \<longleftrightarrow> i \<ge> f)"
  by (simp add: Actividad_init_def)

theorem Actividad_init_fails_iff_witness:
  "Actividad_init 4 4 ''A'' = Inl ValueError \<and>
   Actividad_init 1 4 ''A'' = Inr \<lparr>inicio = 1, fin = 4, nombre = ''A'', duracion = 3\<rparr>"
  using Actividad_init_fails_iff [where i = 4 and f = 4 and n = "''A''"]
    Actividad_init_fails_iff [where i = 1 and f = 4 and n = "''A''"]
  by simp




section \<open>Sorting\<close>

lemma set_py_sorted_reverse [simp]: "set (py_sorted_reverse key xs) = set xs"
  by (simp add: py_sorted_reverse_def)

lemma py_sorted_reverse_descending:
  "sorted_wrt (\<lambda>a b. key a \<ge> key b) (py_sorted_reverse key xs)"
proof -
  have "sorted (map key (sort_key key (rev xs)))" by (rule sorted_sort_key)
  then have "sorted_wrt (\<lambda>a b. key a \<le> key b) (sort_key key (rev xs))"
    by (simp add: sorted_map)
  then show ?thesis by (simp add: py_sorted_reverse_def sorted_wrt_rev)
qed

section \<open>Values built by the constructors\<close>

lemma Actividad_init_de: "i < f \<Longrightarrow> Actividad_init i f n = Inr (Actividad_de i f n)"
  by (simp add: Actividad_init_def Actividad_de_def)

lemma Actividad_ok_inicio: "Actividad_ok a \<Longrightarrow> inicio a < fin a"
  by (simp add: Actividad_ok_def Actividad_init_def split: if_splits)

section \<open>Change-making: the result is exact\<close>

lemma update_fresh: "k \<notin> fst ` set al \<Longrightarrow> AList.update k v al = al @ [(k, v)]"
  by (induction al) auto

lemma suma_append: "suma_verificacion (al @ [(k, v)]) = suma_verificacion al + k * v"
  by (simp add: suma_verificacion_def)

lemma total_append: "total_monedas (al @ [(k, v)]) = total_monedas al + v"
  by (simp add: total_monedas_def)

lemma cambio_loop_step:
  "moneda \<noteq> 0 \<Longrightarrow> cambio_loop (moneda # resto) resultado r =
     (if r \<ge> moneda then cambio_loop resto (AList.update moneda (r div moneda) resultado) (r mod moneda)
      else cambio_loop resto resultado r)"
  by (simp add: py_floordiv_def py_mod_def)

text \<open>The invariant of the loop over positive denominations: the value handed out plus the
  remainder is constant, the remainder stays below every denomination already visited, and
  every key recorded is new, so that no count is overwritten.\<close>

lemma cambio_loop_inv:
  assumes "\<forall>m \<in> set ms. 0 < m" "0 \<le> r" "\<forall>k \<in> fst ` set res. r < k"
    "\<forall>(d, c) \<in> set res. 1 \<le> c" "distinct (map fst res)"
  shows "\<exists>res' r'. cambio_loop ms res r = Inr res' \<and>
           suma_verificacion res' + r' = suma_verificacion res + r \<and>
           total_monedas res' = total_monedas res + cuenta_voraz ms r \<and>
           0 \<le> r' \<and> r' \<le> r \<and> (\<forall>m \<in> set ms. r' < m) \<and>
           (\<forall>(d, c) \<in> set res'. 1 \<le> c) \<and> distinct (map fst res') \<and>
           fst ` set res' \<subseteq> fst ` set res \<union> set ms"
  using assms
proof (induction ms arbitrary: res r)
  case Nil
  then show ?case by simp
next
  case (Cons m ms)
  have mpos: "0 < m" using Cons.prems(1) by simp
  have mpos': "\<forall>m \<in> set ms. 0 < m" using Cons.prems(1) by simp
  show ?case
  proof (cases "r \<ge> m")
    case True
    let ?q = "r div m" and ?r = "r mod m"
    have fresh: "m \<notin> fst ` set res" using Cons.prems(3) True by force
    have upd: "AList.update m ?q res = res @ [(m, ?q)]" using fresh by (rule update_fresh)
    have "0 < ?q" using True mpos by (simp add: pos_imp_zdiv_pos_iff)
    then have q1: "1 \<le> ?q" by linarith
    have r0: "0 \<le> ?r" and rm: "?r < m" using mpos by simp_all
    have rle: "?r \<le> r" using Cons.prems(2) mpos by (simp add: zmod_le_nonneg_dividend)
    have p3: "\<forall>k \<in> fst ` set (res @ [(m, ?q)]). ?r < k"
      using Cons.prems(3) rm rle by force
    have p4: "\<forall>(d, c) \<in> set (res @ [(m, ?q)]). 1 \<le> c"
      using Cons.prems(4) q1 by auto
    have p5: "distinct (map fst (res @ [(m, ?q)]))"
      using Cons.prems(5) fresh by simp
    from Cons.IH [OF mpos' r0 p3 p4 p5]
    obtain res' r' where IH: "cambio_loop ms (res @ [(m, ?q)]) ?r = Inr res'"
      "suma_verificacion res' + r' = suma_verificacion (res @ [(m, ?q)]) + ?r"
      "total_monedas res' = total_monedas (res @ [(m, ?q)]) + cuenta_voraz ms ?r"
      "0 \<le> r'" "r' \<le> ?r" "\<forall>m \<in> set ms. r' < m"
      "\<forall>(d, c) \<in> set res'. 1 \<le> c" "distinct (map fst res')"
      "fst ` set res' \<subseteq> fst ` set (res @ [(m, ?q)]) \<union> set ms"
      by blast
    have 1: "cambio_loop (m # ms) res r = Inr res'"
      using IH(1) True mpos upd by (simp add: cambio_loop_step del: cambio_loop.simps)
    have 2: "suma_verificacion res' + r' = suma_verificacion res + r"
      using IH(2) by (simp add: suma_append)
    have 3: "total_monedas res' = total_monedas res + cuenta_voraz (m # ms) r"
      using IH(3) by (simp add: total_append)
    have 4: "\<forall>k \<in> set (m # ms). r' < k" using IH(5,6) rm by auto
    have 5: "r' \<le> r" using IH(5) rle by simp
    have 6: "fst ` set res' \<subseteq> fst ` set res \<union> set (m # ms)" using IH(9) by auto
    show ?thesis using 1 2 3 4 5 6 IH(4,7,8) by blast
  next
    case False
    have d0: "r div m = 0" "r mod m = r" using False Cons.prems(2) by (simp_all add: div_pos_pos_trivial)
    from Cons.IH [OF mpos' Cons.prems(2) Cons.prems(3) Cons.prems(4) Cons.prems(5)]
    obtain res' r' where IH: "cambio_loop ms res r = Inr res'"
      "suma_verificacion res' + r' = suma_verificacion res + r"
      "total_monedas res' = total_monedas res + cuenta_voraz ms r"
      "0 \<le> r'" "r' \<le> r" "\<forall>m \<in> set ms. r' < m"
      "\<forall>(d, c) \<in> set res'. 1 \<le> c" "distinct (map fst res')"
      "fst ` set res' \<subseteq> fst ` set res \<union> set ms"
      by blast
    have 1: "cambio_loop (m # ms) res r = Inr res'"
      using IH(1) False mpos by (simp add: cambio_loop_step del: cambio_loop.simps)
    have 3: "total_monedas res' = total_monedas res + cuenta_voraz (m # ms) r"
      using IH(3) d0 by simp
    have 4: "\<forall>k \<in> set (m # ms). r' < k" using IH(5,6) False by auto
    have 6: "fst ` set res' \<subseteq> fst ` set res \<union> set (m # ms)" using IH(9) by auto
    show ?thesis using 1 IH(2) 3 4 6 IH(4,5,7,8) by blast
  qed
qed

lemma dar_cambio_voraz_inv:
  assumes "\<forall>m \<in> set monedas. 0 < m" "0 \<le> cantidad"
  shows "\<exists>res r'. dar_cambio_voraz cantidad monedas = Inr res \<and>
           suma_verificacion res + r' = cantidad \<and>
           total_monedas res = cuenta_voraz (py_sorted_reverse (\<lambda>m. m) monedas) cantidad \<and>
           0 \<le> r' \<and> (\<forall>m \<in> set monedas. r' < m) \<and>
           (\<forall>(d, c) \<in> set res. 1 \<le> c) \<and> distinct (map fst res) \<and>
           fst ` set res \<subseteq> set monedas"
proof -
  have pos: "\<forall>m \<in> set (py_sorted_reverse (\<lambda>m. m) monedas). 0 < m" using assms(1) by simp
  from cambio_loop_inv [OF pos assms(2), of "[]"]
  show ?thesis
    by (simp add: dar_cambio_voraz_def suma_verificacion_def total_monedas_def) blast
qed

text \<open>
  C6. For a non-negative amount and positive denominations that contain 1,
  \<open>dar_cambio_voraz\<close> returns a mapping (the keys are distinct and are denominations of
  the list) in which every count is at least 1 and whose weighted sum is the amount;
  for the amount 0 and the denominations 25, 10, 5, 1 it returns the empty mapping.
\<close>

theorem dar_cambio_voraz_exacto:
  "(0 \<le> cantidad \<and> (\<forall>m \<in> set monedas. 0 < m) \<and> 1 \<in> set monedas \<longrightarrow>
     (\<exists>res. dar_cambio_voraz cantidad monedas = Inr res \<and>
        (\<forall>(d, c) \<in> set res. 1 \<le> c) \<and> distinct (map fst res) \<and>
        fst ` set res \<subseteq> set monedas \<and> suma_verificacion res = cantidad)) \<and>
   dar_cambio_voraz 0 [25, 10, 5, 1] = Inr []"
proof (intro conjI impI)
  assume a: "0 \<le> cantidad \<and> (\<forall>m \<in> set monedas. 0 < m) \<and> 1 \<in> set monedas"
  then obtain res r' where r: "dar_cambio_voraz cantidad monedas = Inr res"
    "suma_verificacion res + r' = cantidad" "0 \<le> r'" "\<forall>m \<in> set monedas. r' < m"
    "\<forall>(d, c) \<in> set res. 1 \<le> c" "distinct (map fst res)" "fst ` set res \<subseteq> set monedas"
    using dar_cambio_voraz_inv [of monedas cantidad] by blast
  have "r' < 1" using r(4) a by blast
  then have "r' = 0" using r(3) by simp
  then show "\<exists>res. dar_cambio_voraz cantidad monedas = Inr res \<and>
        (\<forall>(d, c) \<in> set res. 1 \<le> c) \<and> distinct (map fst res) \<and>
        fst ` set res \<subseteq> set monedas \<and> suma_verificacion res = cantidad"
    using r by auto
next
  show "dar_cambio_voraz 0 [25, 10, 5, 1] = Inr []"
    by (simp add: dar_cambio_voraz_def py_sorted_reverse_def)
qed

theorem dar_cambio_voraz_exacto_witness:
  "\<exists>res. dar_cambio_voraz 7 [1, 5] = Inr res \<and> (\<forall>(d, c) \<in> set res. 1 \<le> c) \<and>
     suma_verificacion res = 7"
  using dar_cambio_voraz_exacto [where cantidad = 7 and monedas = "[1, 5]"] by auto

section \<open>Change-making: the number of coins is minimal for 25, 10, 5, 1\<close>

text \<open>Adding one coin of any of the four denominations to an amount raises the greedy
  count by at most one; hence no representation uses fewer coins than the greedy count.\<close>

lemma cuenta_canonica_shift: "cuenta_canonica (25 * q + r) = q + cuenta_canonica r"
  unfolding cuenta_canonica_def by simp

lemma cuenta_canonica_small_all:
  "\<forall>r \<in> set [0..24]. cuenta_canonica (r + 1) \<le> 1 + cuenta_canonica r \<and>
     cuenta_canonica (r + 5) \<le> 1 + cuenta_canonica r \<and>
     cuenta_canonica (r + 10) \<le> 1 + cuenta_canonica r \<and>
     cuenta_canonica (r + 25) \<le> 1 + cuenta_canonica r"
  by (simp add: upto.simps cuenta_canonica_def)

lemma cuenta_canonica_small:
  "0 \<le> r \<Longrightarrow> r < 25 \<Longrightarrow> d \<in> {1, 5, 10, 25} \<Longrightarrow> cuenta_canonica (r + d) \<le> 1 + cuenta_canonica r"
  using cuenta_canonica_small_all by auto

lemma cuenta_canonica_step:
  assumes "d \<in> {1, 5, 10, 25}"
  shows "cuenta_canonica (d + s) \<le> 1 + cuenta_canonica s"
proof -
  have s: "s = 25 * (s div 25) + s mod 25" by simp
  have "d + s = 25 * (s div 25) + (s mod 25 + d)" by (subst s) simp
  then have "cuenta_canonica (d + s) = s div 25 + cuenta_canonica (s mod 25 + d)"
    by (simp only: cuenta_canonica_shift)
  also have "\<dots> \<le> s div 25 + (1 + cuenta_canonica (s mod 25))"
    using cuenta_canonica_small [of "s mod 25" d] assms by simp
  also have "\<dots> = 1 + cuenta_canonica (25 * (s div 25) + s mod 25)"
    by (simp only: cuenta_canonica_shift)
  finally show ?thesis by simp
qed

lemma cuenta_canonica_steps:
  assumes "d \<in> {1, 5, 10, 25}"
  shows "cuenta_canonica (d * int k + s) \<le> int k + cuenta_canonica s"
proof (induction k)
  case 0
  then show ?case by simp
next
  case (Suc k)
  have e: "d * int (Suc k) + s = d + (d * int k + s)" by (simp add: algebra_simps)
  have "cuenta_canonica (d * int (Suc k) + s) \<le> 1 + cuenta_canonica (d * int k + s)"
    unfolding e by (rule cuenta_canonica_step [OF assms])
  with Suc show ?case by simp
qed

lemma cuenta_canonica_le_representacion:
  assumes "\<forall>(d, c) \<in> set rep. d \<in> {1, 5, 10, 25} \<and> 0 \<le> c"
  shows "cuenta_canonica (suma_verificacion rep) \<le> total_monedas rep"
  using assms
proof (induction rep)
  case Nil
  then show ?case by (simp add: suma_verificacion_def total_monedas_def cuenta_canonica_def)
next
  case (Cons p rep)
  obtain d c where p: "p = (d, c)" by (cases p)
  have d: "d \<in> {1, 5, 10, 25}" and c: "0 \<le> c" using Cons.prems p by auto
  have IH: "cuenta_canonica (suma_verificacion rep) \<le> total_monedas rep"
    using Cons by simp
  have "cuenta_canonica (d * int (nat c) + suma_verificacion rep)
          \<le> int (nat c) + cuenta_canonica (suma_verificacion rep)"
    using d by (rule cuenta_canonica_steps)
  then have "cuenta_canonica (d * c + suma_verificacion rep) \<le> c + cuenta_canonica (suma_verificacion rep)"
    using c by simp
  then show ?case using IH p by (simp add: suma_verificacion_def total_monedas_def)
qed

text \<open>A denomination that occurs twice is visited twice, and the second visit takes
  nothing: the sorted list may be replaced by the list without repetitions.\<close>

lemma cuenta_voraz_remdups_adj: "cuenta_voraz (remdups_adj ms) r = cuenta_voraz ms r"
proof (induction ms arbitrary: r rule: remdups_adj.induct)
  case (3 x y xs)
  show ?case
  proof (cases "x = y")
    case True
    have "r mod y div y = 0" 
      by (cases "y = 0") (simp_all add: div_eq_0_iff zmod_trivial_iff pos_mod_bound neg_mod_bound
          pos_mod_sign neg_mod_sign Euclidean_Rings.pos_mod_sign)
    then show ?thesis using True 3 by simp
  next
    case False
    then show ?thesis using 3 by simp
  qed
qed simp_all

lemma distinct_remdups_adj_sorted: "sorted xs \<Longrightarrow> distinct (remdups_adj xs)"
proof (induction xs rule: remdups_adj.induct)
  case (3 x y xs)
  show ?case
  proof (cases "x = y")
    case True
    then show ?thesis using 3 by simp
  next
    case False
    then have "x \<notin> set (y # xs)" using "3.prems" by auto
    then show ?thesis using False 3 by simp
  qed
qed simp_all

lemma monedas_ordenadas_canonicas:
  assumes "set monedas = {1, 5, 10, 25::int}"
  shows "remdups_adj (py_sorted_reverse (\<lambda>m. m) monedas) = [25, 10, 5, 1]"
proof -
  let ?ys = "sort_key (\<lambda>m. m) (rev monedas)"
  have s: "sorted ?ys" using sorted_sort_key [of "\<lambda>m. m" "rev monedas"] by simp
  have "sorted (remdups_adj ?ys)" using s by (rule sorted_remdups_adj)
  moreover have "distinct (remdups_adj ?ys)" using s by (rule distinct_remdups_adj_sorted)
  moreover have "set (remdups_adj ?ys) = set [1, 5, 10, 25]" using assms by simp
  ultimately have "remdups_adj ?ys = [1, 5, 10, 25]"
    by (intro sorted_distinct_set_unique) simp_all
  then show ?thesis by (simp add: py_sorted_reverse_def remdups_adj_rev)
qed

lemma cuenta_voraz_canonica:
  assumes "set monedas = {1, 5, 10, 25}"
  shows "cuenta_voraz (py_sorted_reverse (\<lambda>m. m) monedas) n = cuenta_canonica n"
proof -
  have "cuenta_voraz (py_sorted_reverse (\<lambda>m. m) monedas) n
        = cuenta_voraz (remdups_adj (py_sorted_reverse (\<lambda>m. m) monedas)) n"
    by (simp only: cuenta_voraz_remdups_adj)
  also have "\<dots> = cuenta_voraz [25, 10, 5, 1] n"
    by (simp only: monedas_ordenadas_canonicas [OF assms])
  also have "\<dots> = cuenta_canonica n" by (simp add: cuenta_canonica_def)
  finally show ?thesis .
qed

text \<open>
  C3. For every list of denominations whose set is \<open>{1, 5, 10, 25}\<close> and every amount
  \<open>\<ge> 0\<close> (in particular every amount in \<open>[0, 10000]\<close>), \<open>dar_cambio_voraz\<close> returns an
  exact representation of the amount (the weighted sum is the amount) whose number of
  coins is at most that of every exact representation of the amount with these denominations;
  \<open>dar_cambio_voraz 67 [25, 10, 5, 1]\<close> is \<open>{25: 2, 10: 1, 5: 1, 1: 2}\<close>, 6 coins.
\<close>

theorem dar_cambio_voraz_minimo:
  "(set monedas = {1, 5, 10, 25} \<and> 0 \<le> cantidad \<longrightarrow>
     (\<exists>res. dar_cambio_voraz cantidad monedas = Inr res \<and> representacion res cantidad \<and>
        (\<forall>rep. representacion rep cantidad \<longrightarrow> total_monedas res \<le> total_monedas rep))) \<and>
   dar_cambio_voraz 67 [25, 10, 5, 1] = Inr [(25, 2), (10, 1), (5, 1), (1, 2)] \<and>
   total_monedas [(25, 2), (10, 1), (5, 1), (1, 2)] = 6"
proof (intro conjI impI)
  assume a: "set monedas = {1, 5, 10, 25} \<and> 0 \<le> cantidad"
  then have pos: "\<forall>m \<in> set monedas. 0 < m" by simp
  from dar_cambio_voraz_inv [OF pos, of cantidad] a
  obtain res r' where r: "dar_cambio_voraz cantidad monedas = Inr res"
    "suma_verificacion res + r' = cantidad"
    "total_monedas res = cuenta_voraz (py_sorted_reverse (\<lambda>m. m) monedas) cantidad"
    "0 \<le> r'" "\<forall>m \<in> set monedas. r' < m"
    "\<forall>(d, c) \<in> set res. 1 \<le> c" "fst ` set res \<subseteq> set monedas"
    by blast
  have "r' < 1" using r(5) a by simp
  then have r0: "r' = 0" using r(4) by simp
  have "\<forall>(d, c) \<in> set res. d \<in> {1, 5, 10, 25} \<and> 0 \<le> c"
  proof (clarify)
    fix d c assume dc: "(d, c) \<in> set res"
    then have "d \<in> fst ` set res" by force
    then have "d \<in> {1, 5, 10, 25}" using r(7) a by blast
    moreover have "1 \<le> c" using r(6) dc by blast
    ultimately show "d \<in> {1, 5, 10, 25} \<and> 0 \<le> c" by simp
  qed
  then have rep: "representacion res cantidad"
    using r(2) r0 by (simp add: representacion_def)
  have tot: "total_monedas res = cuenta_canonica cantidad"
    using r(3) a by (simp add: cuenta_voraz_canonica)
  have "total_monedas res \<le> total_monedas rep" if "representacion rep cantidad" for rep
    using cuenta_canonica_le_representacion [of rep] that tot
    by (simp add: representacion_def)
  then show "\<exists>res. dar_cambio_voraz cantidad monedas = Inr res \<and> representacion res cantidad \<and>
        (\<forall>rep. representacion rep cantidad \<longrightarrow> total_monedas res \<le> total_monedas rep)"
    using r(1) rep by blast
next
  show "dar_cambio_voraz 67 [25, 10, 5, 1] = Inr [(25, 2), (10, 1), (5, 1), (1, 2)]"
    by (simp add: dar_cambio_voraz_def py_sorted_reverse_def py_floordiv_def py_mod_def)
next
  show "total_monedas [(25, 2), (10, 1), (5, 1), (1, 2)] = 6"
    by (simp add: total_monedas_def)
qed

theorem dar_cambio_voraz_minimo_witness:
  "\<exists>res. dar_cambio_voraz 30 [1, 5, 10, 25] = Inr res \<and> suma_verificacion res = 30 \<and>
     total_monedas res \<le> total_monedas [(10, 3)]"
proof -
  have "representacion [(10, 3)] 30" by (simp add: representacion_def suma_verificacion_def)
  then show ?thesis
    using dar_cambio_voraz_minimo [where monedas = "[1, 5, 10, 25]" and cantidad = 30]
    by (auto simp: representacion_def)
qed

section \<open>Change-making: negative amounts\<close>

text \<open>With a negative amount no division by zero is reached: the list is visited in
  descending order, and a denomination is only taken when it is at most the remainder, so
  the first one taken, and every one after it, is negative.\<close>

lemma cambio_loop_no_cero:
  "\<forall>m \<in> set ms. m \<noteq> 0 \<Longrightarrow> \<exists>res'. cambio_loop ms res r = Inr res'"
proof (induction ms arbitrary: res r)
  case (Cons m ms)
  then have "m \<noteq> 0" and "\<forall>m \<in> set ms. m \<noteq> 0" by simp_all
  then show ?case using Cons.IH by (simp add: cambio_loop_step del: cambio_loop.simps)
qed simp

lemma cambio_loop_negativo:
  "sorted_wrt (\<lambda>a b. a \<ge> b) ms \<Longrightarrow> r < 0 \<Longrightarrow> \<exists>res'. cambio_loop ms res r = Inr res'"
proof (induction ms arbitrary: res)
  case (Cons m ms)
  show ?case
  proof (cases "r \<ge> m")
    case True
    then have "m < 0" using Cons.prems(2) by simp
    then have "\<forall>k \<in> set (m # ms). k \<noteq> 0" using Cons.prems(1) by auto
    then show ?thesis by (rule cambio_loop_no_cero)
  next
    case False
    then show ?thesis using Cons by simp
  qed
qed simp

lemma cambio_loop_negativo_vacio:
  "\<forall>m \<in> set ms. 0 \<le> m \<Longrightarrow> r < 0 \<Longrightarrow> cambio_loop ms res r = Inr res"
  by (induction ms) auto

lemma dar_cambio_voraz_negativo:
  assumes "cantidad < 0"
  shows "\<exists>res. dar_cambio_voraz cantidad monedas = Inr res"
    and "\<forall>m \<in> set monedas. 0 \<le> m \<Longrightarrow> dar_cambio_voraz cantidad monedas = Inr []"
proof -
  show "\<exists>res. dar_cambio_voraz cantidad monedas = Inr res"
    using cambio_loop_negativo [OF py_sorted_reverse_descending [of "\<lambda>m. m" monedas] assms]
    by (simp add: dar_cambio_voraz_def)
  show "dar_cambio_voraz cantidad monedas = Inr []" if "\<forall>m \<in> set monedas. 0 \<le> m"
    using cambio_loop_negativo_vacio [of "py_sorted_reverse (\<lambda>m. m) monedas" cantidad "[]"] that assms
    by (simp add: dar_cambio_voraz_def)
qed

section \<open>Negative amounts and capacities\<close>

text \<open>With a capacity that is not positive the loop stops before its first item, so no
  arithmetic on the items is reached.\<close>

lemma py_lt_le: "py_lt a b \<Longrightarrow> py_le a b"
  by (cases "exacto a"; cases "exacto b") (auto simp: py_lt_def py_le_def f_le_def)

lemma mochila_loop_cero: "py_le c (Entero 0) \<Longrightarrow> mochila_loop as m c v = Inr (m, c, v)"
  by (cases as) simp_all

lemma mochila_negativa:
  "py_lt capacidad (Entero 0) \<Longrightarrow>
     mochila_fraccionaria_voraz orden_con_nan articulos capacidad = Inr ([], Flotante (Finito 0))"
  by (simp add: mochila_fraccionaria_voraz_def mochila_loop_cero py_lt_le)

text \<open>
  C8, as the claim states it, fails for a negative denomination: for the amount \<open>-5\<close> and
  the denominations \<open>[-10]\<close> the test \<open>-5 \<ge> -10\<close> holds and the count
  \<open>-5 // -10 = 0\<close> is recorded, so the mapping returned is \<open>{-10: 0}\<close>, not the empty one.
\<close>

theorem dar_cambio_voraz_moneda_negativa_counterexample:
  "dar_cambio_voraz (- 5) [- 10] = Inr [(- 10, 0)] \<and> dar_cambio_voraz (- 5) [- 10] \<noteq> Inr []"
  by (simp add: dar_cambio_voraz_def py_sorted_reverse_def py_floordiv_def py_mod_def)

text \<open>
  C8, amended. Neither function validates its input. For every negative amount
  \<open>dar_cambio_voraz\<close> raises no error, whatever the list of denominations, and returns the
  empty mapping when no denomination is negative; for the empty list of denominations it
  returns the empty mapping for every amount. For every list of items and every negative
  capacity, an \<^verbatim>\<open>int\<close> or a \<^verbatim>\<open>float\<close>, \<open>mochila_fraccionaria_voraz\<close> raises no error and
  returns the empty selection with the total value \<^verbatim>\<open>0.0\<close>.
\<close>

theorem entradas_negativas_sin_validar:
  "(cantidad < 0 \<longrightarrow>
      (\<exists>res. dar_cambio_voraz cantidad monedas = Inr res) \<and>
      ((\<forall>m \<in> set monedas. 0 \<le> m) \<longrightarrow> dar_cambio_voraz cantidad monedas = Inr [])) \<and>
   dar_cambio_voraz cantidad [] = Inr [] \<and>
   (py_lt capacidad (Entero 0) \<longrightarrow>
      mochila_fraccionaria_voraz orden_con_nan articulos capacidad =
        Inr ([], Flotante (Finito 0)))"
proof (intro conjI impI)
  assume "cantidad < 0"
  then show "\<exists>res. dar_cambio_voraz cantidad monedas = Inr res"
    by (rule dar_cambio_voraz_negativo(1))
next
  assume "cantidad < 0" and "\<forall>m \<in> set monedas. 0 \<le> m"
  then show "dar_cambio_voraz cantidad monedas = Inr []"
    by (rule dar_cambio_voraz_negativo(2))
next
  show "dar_cambio_voraz cantidad [] = Inr []"
    by (simp add: dar_cambio_voraz_def py_sorted_reverse_def)
next
  assume "py_lt capacidad (Entero 0)"
  then show "mochila_fraccionaria_voraz orden_con_nan articulos capacidad =
      Inr ([], Flotante (Finito 0))"
    by (rule mochila_negativa)
qed

theorem entradas_negativas_sin_validar_witness:
  "dar_cambio_voraz (- 3) [25, 10, 5, 1] = Inr [] \<and>
   mochila_fraccionaria_voraz (\<lambda>xs. xs) articulos_ejemplo (Entero (- 1)) =
     Inr ([], Flotante (Finito 0)) \<and>
   mochila_fraccionaria_voraz (\<lambda>xs. xs) articulos_ejemplo (Flotante (Finito (- 1 / 2))) =
     Inr ([], Flotante (Finito 0))"
  using entradas_negativas_sin_validar
    [where cantidad = "- 3" and monedas = "[25, 10, 5, 1]" and capacidad = "Entero (- 1)"
       and articulos = articulos_ejemplo and orden_con_nan = "\<lambda>xs. xs"]
    entradas_negativas_sin_validar
    [where cantidad = "- 3" and monedas = "[25, 10, 5, 1]"
       and capacidad = "Flotante (Finito (- 1 / 2))"
       and articulos = articulos_ejemplo and orden_con_nan = "\<lambda>xs. xs"]
  by (simp add: py_lt_def)

section \<open>Activity selection: the result is sorted and free of overlaps\<close>

lemma seleccion_loop_append: "seleccion_loop as sel u = sel @ seleccion_loop as [] u"
proof (induction as arbitrary: sel u)
  case (Cons a as)
  show ?case
  proof (cases "inicio a \<ge> u")
    case True
    have "seleccion_loop (a # as) sel u = seleccion_loop as (sel @ [a]) (fin a)" using True by simp
    also have "\<dots> = (sel @ [a]) @ seleccion_loop as [] (fin a)" by (rule Cons.IH)
    also have "\<dots> = sel @ ([a] @ seleccion_loop as [] (fin a))" by simp
    also have "[a] @ seleccion_loop as [] (fin a) = seleccion_loop as [a] (fin a)"
      by (rule Cons.IH [symmetric])
    also have "seleccion_loop as [a] (fin a) = seleccion_loop (a # as) [] u" using True by simp
    finally show ?thesis .
  next
    case False
    then show ?thesis using Cons.IH [of sel u] by simp
  qed
qed simp

lemma seleccion_loop_Cons:
  "seleccion_loop (a # as) [] u =
     (if inicio a \<ge> u then a # seleccion_loop as [] (fin a) else seleccion_loop as [] u)"
  using seleccion_loop_append [of as "[a]" "fin a"] by simp

lemma seleccion_loop_subset: "set (seleccion_loop as [] u) \<subseteq> set as"
  by (induction as arbitrary: u) (auto simp: seleccion_loop_Cons simp del: seleccion_loop.simps(2))

lemma seleccion_loop_sorted:
  "sorted (map fin as) \<Longrightarrow> sorted (map fin (seleccion_loop as [] u))"
proof (induction as arbitrary: u)
  case (Cons a as)
  have s: "sorted (map fin as)" and le: "\<forall>x \<in> set as. fin a \<le> fin x" using Cons.prems by auto
  have "\<forall>x \<in> set (seleccion_loop as [] (fin a)). fin a \<le> fin x"
    using le seleccion_loop_subset [of as "fin a"] by blast
  then show ?case using Cons.IH [OF s] by (simp add: seleccion_loop_Cons del: seleccion_loop.simps)
qed simp

lemma seleccion_loop_inicio:
  "sorted (map fin as) \<Longrightarrow> \<forall>x \<in> set as. u \<le> fin x \<Longrightarrow>
     \<forall>b \<in> set (seleccion_loop as [] u). u \<le> inicio b"
proof (induction as arbitrary: u)
  case (Cons a as)
  have s: "sorted (map fin as)" and le: "\<forall>x \<in> set as. fin a \<le> fin x" and ua: "u \<le> fin a"
    and ux: "\<forall>x \<in> set as. u \<le> fin x"
    using Cons.prems by auto
  show ?case
  proof (cases "inicio a \<ge> u")
    case True
    have "\<forall>b \<in> set (seleccion_loop as [] (fin a)). fin a \<le> inicio b" using s le by (rule Cons.IH)
    then have "\<forall>b \<in> set (seleccion_loop as [] (fin a)). u \<le> inicio b" using ua by auto
    then show ?thesis using True by (simp add: seleccion_loop_Cons del: seleccion_loop.simps)
  next
    case False
    have "\<forall>b \<in> set (seleccion_loop as [] u). u \<le> inicio b" using s ux by (rule Cons.IH)
    then show ?thesis using False by (simp add: seleccion_loop_Cons del: seleccion_loop.simps)
  qed
qed simp

lemma seleccion_loop_compatibles:
  "sorted (map fin as) \<Longrightarrow> sorted_wrt (\<lambda>a b. fin a \<le> inicio b) (seleccion_loop as [] u)"
proof (induction as arbitrary: u)
  case (Cons a as)
  have s: "sorted (map fin as)" and le: "\<forall>x \<in> set as. fin a \<le> fin x" using Cons.prems by auto
  have "\<forall>b \<in> set (seleccion_loop as [] (fin a)). fin a \<le> inicio b"
    using s le by (rule seleccion_loop_inicio)
  then show ?case using Cons.IH [OF s] by (simp add: seleccion_loop_Cons del: seleccion_loop.simps)
qed simp

lemma seleccion_voraz_compatibles:
  "sorted_wrt (\<lambda>a b. fin a \<le> inicio b) (seleccion_actividades_voraz actividades)"
  by (simp add: seleccion_actividades_voraz_def py_sorted_def seleccion_loop_compatibles)

lemma seleccion_voraz_sorted: "sorted (map fin (seleccion_actividades_voraz actividades))"
  by (simp add: seleccion_actividades_voraz_def py_sorted_def seleccion_loop_sorted)

lemma seleccion_voraz_subset: "set (seleccion_actividades_voraz actividades) \<subseteq> set actividades"
  using seleccion_loop_subset [of "sort_key fin actividades" "- 1"]
  by (simp add: seleccion_actividades_voraz_def py_sorted_def)

lemma seleccion_actividades_contiguas:
  "seleccion_actividades_voraz actividades_contiguas =
     [Actividad_de 1 4 ''A'', Actividad_de 4 6 ''C'']"
  by (simp add: seleccion_actividades_voraz_def py_sorted_def actividades_contiguas_def
      Actividad_de_def)

lemma seleccion_actividades_ejemplo:
  "seleccion_actividades_voraz actividades_ejemplo =
     [Actividad_de 1 4 ''A'', Actividad_de 5 7 ''D'', Actividad_de 8 11 ''H'',
      Actividad_de 12 14 ''K'']"
  by (simp add: seleccion_actividades_voraz_def py_sorted_def actividades_ejemplo_def
      Actividad_de_def)

text \<open>
  C5. For every list of activities the list that \<open>seleccion_actividades_voraz\<close> returns is
  sorted by end time, and no two of its entries overlap. \<open>traslapa_con\<close> is the half-open
  relation: \<open>a\<close> and \<open>b\<close> overlap iff not (\<open>fin a \<le> inicio b\<close> or \<open>fin b \<le> inicio a\<close>), so
  two activities that touch (\<open>fin a = inicio b\<close>) do not overlap.
\<close>

theorem seleccion_actividades_voraz_sin_traslape:
  "sorted (map fin (seleccion_actividades_voraz actividades)) \<and>
   (\<forall>i < length (seleccion_actividades_voraz actividades).
      \<forall>j < length (seleccion_actividades_voraz actividades).
        i \<noteq> j \<longrightarrow> \<not> traslapa_con (seleccion_actividades_voraz actividades ! i)
                               (seleccion_actividades_voraz actividades ! j)) \<and>
   verificar_sin_traslape (seleccion_actividades_voraz actividades) \<and>
   (traslapa_con a b \<longleftrightarrow> \<not> (fin a \<le> inicio b \<or> fin b \<le> inicio a)) \<and>
   (fin a = inicio b \<longrightarrow> \<not> traslapa_con a b)"
proof -
  let ?r = "seleccion_actividades_voraz actividades"
  have c: "sorted_wrt (\<lambda>a b. fin a \<le> inicio b) ?r" by (rule seleccion_voraz_compatibles)
  have lt: "fin (?r ! i) \<le> inicio (?r ! j)" if "i < j" "j < length ?r" for i j
    using c that by (simp add: sorted_wrt_iff_nth_less)
  have pw: "\<not> traslapa_con (?r ! i) (?r ! j)" if "i < length ?r" "j < length ?r" "i \<noteq> j" for i j
  proof (cases "i < j")
    case True
    then show ?thesis using lt [of i j] that by (simp add: traslapa_con_def)
  next
    case False
    then have "j < i" using that by simp
    then show ?thesis using lt [of j i] that by (simp add: traslapa_con_def)
  qed
  have v: "verificar_sin_traslape ?r" using pw by (simp add: verificar_sin_traslape_def)
  show ?thesis using seleccion_voraz_sorted pw v by (simp add: traslapa_con_def)
qed

theorem seleccion_actividades_voraz_sin_traslape_witness:
  "\<not> traslapa_con (seleccion_actividades_voraz actividades_contiguas ! 0)
        (seleccion_actividades_voraz actividades_contiguas ! 1) \<and>
   \<not> traslapa_con (Actividad_de 1 4 ''A'') (Actividad_de 4 6 ''C'')"
proof -
  have l: "length (seleccion_actividades_voraz actividades_contiguas) = 2"
    by (simp add: seleccion_actividades_contiguas)
  have f: "fin (Actividad_de 1 4 ''A'') = inicio (Actividad_de 4 6 ''C'')"
    by (simp add: Actividad_de_def)
  show ?thesis
    using seleccion_actividades_voraz_sin_traslape
      [where actividades = actividades_contiguas and a = "Actividad_de 1 4 ''A''"
         and b = "Actividad_de 4 6 ''C''"] l f
    by simp
qed

section \<open>Activity selection: cardinality\<close>

text \<open>When no activity starts before \<open>-1\<close>, the initial value \<open>-1\<close> of \<^verbatim>\<open>ultimo_fin\<close> is
  below every start, and the exchange argument applies: no set of activities of the input
  that is free of overlaps has more elements than the list returned, whose entries are
  distinct.\<close>

lemma fin_minimo:
  assumes "finite S" "S \<noteq> {}"
  shows "\<exists>b \<in> S. \<forall>c \<in> S. fin b \<le> fin c"
proof -
  have f: "finite (fin ` S)" using assms(1) by (rule finite_imageI)
  have n: "fin ` S \<noteq> {}" using assms(2) by simp
  have "Min (fin ` S) \<in> fin ` S" using f n by (rule Min_in)
  then obtain b where b: "b \<in> S" "Min (fin ` S) = fin b" by (rule imageE)
  have "fin b \<le> fin c" if "c \<in> S" for c
  proof -
    have "fin c \<in> fin ` S" using that by (rule imageI)
    then have "Min (fin ` S) \<le> fin c" using f by (simp only: Min_le)
    then show ?thesis by (simp only: b(2))
  qed
  then show ?thesis using b(1) by blast
qed

lemma seleccion_loop_maxima:
  assumes "sorted (map fin as)" "\<forall>a \<in> set as. inicio a < fin a"
    "S \<subseteq> set as" "sin_traslape S" "\<forall>x \<in> S. u \<le> inicio x"
  shows "card S \<le> length (seleccion_loop as [] u)"
  using assms
proof (induction as arbitrary: u S)
  case Nil
  then show ?case by simp
next
  case (Cons a as)
  have s: "sorted (map fin as)" using Cons.prems(1) by simp
  have le: "\<forall>x \<in> set as. fin a \<le> fin x" using Cons.prems(1) by simp
  have val: "\<forall>x \<in> set as. inicio x < fin x" using Cons.prems(2) by simp
  have va: "inicio a < fin a" using Cons.prems(2) by simp
  have fin: "finite S" using Cons.prems(3) by (rule finite_subset) simp
  show ?case
  proof (cases "inicio a \<ge> u")
    case False
    have "a \<notin> S"
    proof
      assume "a \<in> S"
      with Cons.prems(5) have "u \<le> inicio a" by (rule bspec)
      then show False using False by simp
    qed
    then have sub: "S \<subseteq> set as" using Cons.prems(3) by auto
    have "card S \<le> length (seleccion_loop as [] u)"
      using s val sub Cons.prems(4,5) by (rule Cons.IH)
    then show ?thesis using False by (simp only: seleccion_loop_Cons if_False)
  next
    case True
    have res: "seleccion_loop (a # as) [] u = a # seleccion_loop as [] (fin a)"
      using True by (simp only: seleccion_loop_Cons if_True)
    show ?thesis
    proof (cases "S = {}")
      case True
      then show ?thesis by simp
    next
      case ne: False
      have "\<exists>b \<in> S. (\<forall>c \<in> S. fin b \<le> fin c) \<and> S - {b} \<subseteq> set as"
      proof (cases "a \<in> S")
        case True
        have "\<forall>c \<in> S. fin a \<le> fin c"
        proof
          fix c assume "c \<in> S"
          then have "c \<in> set (a # as)" using Cons.prems(3) by (rule rev_subsetD)
          then show "fin a \<le> fin c" using le by auto
        qed
        moreover have "S - {a} \<subseteq> set as" using Cons.prems(3) by auto
        ultimately show ?thesis using True by (intro bexI [of _ a] conjI)
      next
        case False
        then have sub: "S \<subseteq> set as" using Cons.prems(3) by auto
        obtain b where b: "b \<in> S" "\<forall>c \<in> S. fin b \<le> fin c"
          using fin_minimo [OF fin ne] by (rule bexE)
        have "S - {b} \<subseteq> set as" using sub by auto
        then show ?thesis using b by (intro bexI [of _ b] conjI)
      qed
      then obtain b where pick: "b \<in> S" "\<forall>c \<in> S. fin b \<le> fin c" "S - {b} \<subseteq> set as"
        by (elim bexE conjE)
      let ?S = "S - {b}"
      have "b \<in> set (a # as)" using pick(1) Cons.prems(3) by (rule rev_subsetD)
      then have bval: "inicio b < fin b" and ab: "fin a \<le> fin b"
        using Cons.prems(2) le by auto
      have st: "sin_traslape ?S" using Cons.prems(4) by (simp add: sin_traslape_def)
      have lo: "\<forall>x \<in> ?S. fin a \<le> inicio x"
      proof
        fix x assume x: "x \<in> ?S"
        then have xs: "x \<in> S" and xb: "b \<noteq> x" by auto
        have "\<not> traslapa_con b x" using Cons.prems(4) pick(1) xs xb by (simp add: sin_traslape_def)
        then have "fin b \<le> inicio x \<or> fin x \<le> inicio b" by (simp add: traslapa_con_def)
        moreover have "fin b \<le> fin x" using pick(2) xs by (rule bspec)
        ultimately have "fin b \<le> inicio x" using bval by linarith
        then show "fin a \<le> inicio x" using ab by simp
      qed
      have "card ?S \<le> length (seleccion_loop as [] (fin a))"
        using s val pick(3) st lo by (rule Cons.IH)
      moreover have "card S = Suc (card ?S)" using fin pick(1) by (rule card.remove)
      ultimately show ?thesis by (simp only: res list.size)
    qed
  qed
qed

lemma seleccion_actividades_voraz_maxima:
  assumes "\<forall>a \<in> set actividades. Actividad_ok a \<and> - 1 \<le> inicio a"
    "S \<subseteq> set actividades" "sin_traslape S"
  shows "card S \<le> length (seleccion_actividades_voraz actividades)"
proof (cases "actividades = []")
  case True
  then show ?thesis using assms(2) by (simp add: seleccion_actividades_voraz_def)
next
  case False
  let ?as = "sort_key fin actividades"
  have 1: "sorted (map fin ?as)" by (rule sorted_sort_key)
  have 2: "\<forall>a \<in> set ?as. inicio a < fin a" using assms(1) by (simp add: Actividad_ok_inicio)
  have 3: "S \<subseteq> set ?as" using assms(2) by simp
  have 4: "\<forall>x \<in> S. - 1 \<le> inicio x" using assms(1,2) by blast
  have "card S \<le> length (seleccion_loop ?as [] (- 1))"
    using 1 2 3 assms(3) 4 by (rule seleccion_loop_maxima)
  then show ?thesis using False by (simp add: seleccion_actividades_voraz_def py_sorted_def)
qed

lemma distinct_sorted_wrt_neq: "sorted_wrt (\<lambda>a b. a \<noteq> b) xs \<Longrightarrow> distinct xs"
  by (induction xs) auto

lemma seleccion_voraz_distinct:
  assumes "\<forall>a \<in> set actividades. Actividad_ok a"
  shows "distinct (seleccion_actividades_voraz actividades)"
proof -
  let ?r = "seleccion_actividades_voraz actividades"
  have ok: "inicio a < fin a" if "a \<in> set ?r" for a
  proof -
    have "a \<in> set actividades" using that seleccion_voraz_subset [of actividades] by blast
    then show ?thesis using assms by (simp add: Actividad_ok_inicio)
  qed
  have c: "sorted_wrt (\<lambda>a b. fin a \<le> inicio b) ?r" by (rule seleccion_voraz_compatibles)
  have "sorted_wrt (\<lambda>a b. a \<noteq> b) ?r"
  proof (rule sorted_wrt_mono_rel [OF _ c])
    fix a b assume "a \<in> set ?r" "b \<in> set ?r" "fin a \<le> inicio b"
    then show "a \<noteq> b" using ok [of a] by auto
  qed
  then show ?thesis by (rule distinct_sorted_wrt_neq)
qed

lemma seleccion_actividades_voraz_vacia: "seleccion_actividades_voraz [] = []"
  by (simp add: seleccion_actividades_voraz_def)

text \<open>
  C1. The claim asks for a selection of maximum cardinality for every list of activities
  with \<open>inicio < fin\<close>, and for the single activity when the input has one. The code
  starts with \<^verbatim>\<open>ultimo_fin = -1\<close>: an activity that the constructor accepts and that starts
  before \<open>-1\<close> is never selected. For the single activity from \<open>-5\<close> to \<open>-3\<close> the function
  returns the empty list.
\<close>

theorem seleccion_actividades_voraz_inicio_negativo:
  "Actividad_init (- 5) (- 3) ''N'' = Inr actividad_negativa \<and>
   seleccion_actividades_voraz [actividad_negativa] = []"
  by (simp add: actividad_negativa_def Actividad_de_def Actividad_init_def
      seleccion_actividades_voraz_def py_sorted_def)

end
